theory Spec2Isabelle
  imports Main
begin

section \<open>Python text primitives used by the log service\<close>

text \<open>
  Python strings are modelled as \<open>string\<close>, each \<open>char\<close> read as one code point in
  the range U+0000..U+00FF. On that range \<open>isspace\<close> and \<open>lower_char\<close> agree with
  \<^verbatim>\<open>str.isspace\<close> and \<^verbatim>\<open>str.lower\<close>, and \<open>capitalize\<close> agrees with
  \<^verbatim>\<open>str.capitalize\<close> except on a string that starts with U+00B5 or U+00FF: the title
  case of these two lies outside the range, and they are left unchanged.
\<close>

definition newline :: char where
  "newline = CHR 0x0A"

definition isspace :: "char \<Rightarrow> bool" where
  "isspace c = ((of_char c :: nat) \<in> {9, 10, 11, 12, 13, 28, 29, 30, 31, 32, 133, 160})"

definition lower_char :: "char \<Rightarrow> char" where
  "lower_char c =
     (let n = (of_char c :: nat)
      in if (65 \<le> n \<and> n \<le> 90) \<or> (192 \<le> n \<and> n \<le> 222 \<and> n \<noteq> 215)
         then char_of (n + 32) else c)"

definition upper_char :: "char \<Rightarrow> char" where
  "upper_char c =
     (let n = (of_char c :: nat)
      in if (97 \<le> n \<and> n \<le> 122) \<or> (224 \<le> n \<and> n \<le> 254 \<and> n \<noteq> 247)
         then char_of (n - 32) else c)"

text \<open>\<^verbatim>\<open>s.lower()\<close>\<close>

definition lower :: "string \<Rightarrow> string" where
  "lower s = map lower_char s"

text \<open>
  \<^verbatim>\<open>s.capitalize()\<close>: first character in title case, the rest lower case. The title
  case of U+00DF is the two characters \<^verbatim>\<open>Ss\<close>.
\<close>

definition title_char :: "char \<Rightarrow> string" where
  "title_char c = (if (of_char c :: nat) = 223 then ''Ss'' else [upper_char c])"

fun capitalize :: "string \<Rightarrow> string" where
  "capitalize [] = []"
| "capitalize (c # cs) = title_char c @ lower cs"

text \<open>\<^verbatim>\<open>s.strip()\<close>: leading and trailing whitespace removed.\<close>

definition strip :: "string \<Rightarrow> string" where
  "strip s = rev (dropWhile isspace (rev (dropWhile isspace s)))"

text \<open>\<^verbatim>\<open>sub in s\<close> on strings: \<open>sub\<close> occurs as a contiguous piece of \<open>s\<close>.\<close>

fun str_in :: "string \<Rightarrow> string \<Rightarrow> bool" where
  "str_in sub [] = (sub = [])"
| "str_in sub (c # cs) = (take (length sub) (c # cs) = sub \<or> str_in sub cs)"

text \<open>\<^verbatim>\<open>s.split('\n')\<close>: never empty; a trailing newline gives a last empty piece.\<close>

fun split_nl :: "string \<Rightarrow> string list" where
  "split_nl [] = [[]]"
| "split_nl (c # cs) =
     (if c = newline then [] # split_nl cs
      else (case split_nl cs of [] \<Rightarrow> [[c]] | l # ls \<Rightarrow> (c # l) # ls))"

text \<open>\<^verbatim>\<open>'\n'.join(xs)\<close>\<close>

fun join_nl :: "string list \<Rightarrow> string" where
  "join_nl [] = []"
| "join_nl [x] = x"
| "join_nl (x # y # ys) = x @ newline # join_nl (y # ys)"

text \<open>
  \<^verbatim>\<open>f.readlines()\<close> on the decoded text of a file (after the text mode's newline
  translation): the lines, each keeping its terminating newline.
\<close>

fun readlines :: "string \<Rightarrow> string list" where
  "readlines [] = []"
| "readlines (c # cs) =
     (if c = newline then [c] # readlines cs
      else (case readlines cs of [] \<Rightarrow> [[c]] | l # ls \<Rightarrow> (c # l) # ls))"

text \<open>
  \<^verbatim>\<open>xs[i:]\<close>: a negative start counts from the end, and a start outside the list is
  clipped, never an error.
\<close>

definition slice_from :: "'a list \<Rightarrow> int \<Rightarrow> 'a list" where
  "slice_from xs i =
     (if i < 0 then drop (nat (int (length xs) + i)) xs else drop (nat i) xs)"

section \<open>Data model\<close>

datatype LogType = CONTAINER | BOT | DISCORD | WEBUI | APPLICATION | ACTION

text \<open>\<^verbatim>\<open>str(log_type)\<close>, as an f-string renders a member of a plain \<^verbatim>\<open>Enum\<close>.\<close>

fun str_LogType :: "LogType \<Rightarrow> string" where
  "str_LogType CONTAINER = ''LogType.CONTAINER''"
| "str_LogType BOT = ''LogType.BOT''"
| "str_LogType DISCORD = ''LogType.DISCORD''"
| "str_LogType WEBUI = ''LogType.WEBUI''"
| "str_LogType APPLICATION = ''LogType.APPLICATION''"
| "str_LogType ACTION = ''LogType.ACTION''"

record ContainerLogRequest =
  container_name :: string
  max_lines :: int

record FilteredLogRequest =
  log_type :: LogType
  filtered_max_lines :: int

text \<open>
  A value as the JSON body of a request delivers it: \<^verbatim>\<open>None\<close>, a boolean, an integer,
  a float (its value plays no role here), a string, a list or a dictionary.
\<close>

datatype py_value =
  PyNone | PyBool bool | PyInt int | PyFloat | PyStr string
  | PyList "py_value list" | PyDict "(string \<times> py_value) list"

text \<open>\<^verbatim>\<open>type(v).__name__\<close>\<close>

fun type_name :: "py_value \<Rightarrow> string" where
  "type_name PyNone = ''NoneType''"
| "type_name (PyBool _) = ''bool''"
| "type_name (PyInt _) = ''int''"
| "type_name PyFloat = ''float''"
| "type_name (PyStr _) = ''str''"
| "type_name (PyList _) = ''list''"
| "type_name (PyDict _) = ''dict''"

text \<open>
  The dataclass declares \<^verbatim>\<open>log_type: str\<close>, which Python does not enforce: the route
  \<^verbatim>\<open>clear_logs\<close> builds the request from \<^verbatim>\<open>request.json.get('log_type', 'container')\<close>
  as it comes.
\<close>

record ClearLogRequest =
  clear_log_type :: py_value

record LogResult =
  success :: bool
  content :: "string option"
  data :: "(string \<times> py_value) list option"
  error :: "string option"
  status_code :: int

text \<open>The constructor \<^verbatim>\<open>LogResult(success=...)\<close> with the dataclass defaults.\<close>

definition LogResult_ok :: "string \<Rightarrow> LogResult" where
  "LogResult_ok c =
     \<lparr>success = True, content = Some c, data = None, error = None, status_code = 200\<rparr>"

definition LogResult_fail :: "string \<Rightarrow> int \<Rightarrow> LogResult" where
  "LogResult_fail msg code =
     \<lparr>success = False, content = None, data = None, error = Some msg, status_code = code\<rparr>"

text \<open>
  The service object: \<open>default_container\<close> is the environment variable
  \<^verbatim>\<open>DDC_OWN_CONTAINER_NAME\<close> (or \<^verbatim>\<open>'ddc'\<close>), read once by \<^verbatim>\<open>__init__\<close>.
  \<open>log_paths\<close> is the dictionary of \<^verbatim>\<open>__init__\<close>, in insertion order.
\<close>

record ContainerLogService =
  default_container :: string

definition log_paths :: "(string \<times> string list) list" where
  "log_paths =
     [(''bot'', [''/app/logs/bot.log'', ''/Volumes/appdata/dockerdiscordcontrol/logs/bot.log'']),
      (''discord'', [''/app/logs/discord.log'', ''/Volumes/appdata/dockerdiscordcontrol/logs/discord.log'']),
      (''webui'', [''/app/logs/webui_error.log'', ''/Volumes/appdata/dockerdiscordcontrol/logs/webui_error.log'']),
      (''application'', [''/app/logs/supervisord.log'', ''/Volumes/appdata/dockerdiscordcontrol/logs/supervisord.log'']),
      (''container'', [''/app/logs/supervisord.log'', ''/var/log/supervisor/supervisord.log''])]"

text \<open>\<^verbatim>\<open>self.log_paths.get(key, [])\<close> and \<^verbatim>\<open>self.log_paths[key]\<close> on the five keys.\<close>

definition paths_of :: "string \<Rightarrow> string list" where
  "paths_of key = (case map_of log_paths key of None \<Rightarrow> [] | Some ps \<Rightarrow> ps)"

section \<open>The world outside the service\<close>

text \<open>
  The exception classes the handlers of the service tell apart. \<open>NameError\<close> stands for
  \<^verbatim>\<open>UnboundLocalError\<close> as well, \<open>NotFound\<close> and \<open>APIError\<close> are those of
  \<^verbatim>\<open>docker.errors\<close>, and \<open>OtherException\<close> is any other subclass of
  \<^verbatim>\<open>Exception\<close> (an \<^verbatim>\<open>OSError\<close>, a timeout, a \<^verbatim>\<open>DockerException\<close>).
\<close>

datatype exn =
  ImportError | AttributeError | TypeError | ValueError | RuntimeError
  | NameError | NotFound | APIError | OtherException

datatype file_state = Absent | Unreadable | Content string

text \<open>
  What a call can observe:
  \<^item> \<open>common_helpers\<close>: the function \<^verbatim>\<open>utils.common_helpers.validate_container_name\<close>
    when that module can be imported, \<open>None\<close> when the import raises \<^verbatim>\<open>ImportError\<close>
    (the module is not part of the sources at hand, so it is a parameter);
  \<^item> \<open>files\<close>: each path is absent, present but not readable (\<^verbatim>\<open>open\<close> raises an
    \<^verbatim>\<open>OSError\<close>), or present with its decoded text;
  \<^item> \<open>docker_sdk\<close>: whether \<^verbatim>\<open>import docker\<close> succeeds;
  \<^item> \<open>docker_sync\<close>: what \<^verbatim>\<open>docker.from_env().containers.get(name).logs(tail=n)\<close>
    followed by the decoding does: it raises, or gives the text;
  \<^item> \<open>running_loop\<close>: whether \<^verbatim>\<open>asyncio.get_running_loop()\<close> finds a loop;
  \<^item> \<open>client_pool\<close>: what importing and calling \<^verbatim>\<open>get_docker_client_async\<close> does:
    it raises, or returns a value that is falsy (\<open>False\<close>) or a context manager;
  \<^item> \<open>client_enter\<close>: the exception raised on entering that context manager, if any;
  \<^item> \<open>docker_async\<close>: the same query as \<open>docker_sync\<close>, through the pooled client.
\<close>

record environment =
  common_helpers :: "(string \<Rightarrow> bool) option"
  files :: "string \<Rightarrow> file_state"
  docker_sdk :: bool
  docker_sync :: "string \<Rightarrow> int \<Rightarrow> exn + string"
  running_loop :: bool
  client_pool :: "exn + bool"
  client_enter :: "exn option"
  docker_async :: "string \<Rightarrow> int \<Rightarrow> exn + string"

text \<open>
  Every access to a file or to the container engine is recorded, in order. A function
  of the service returns its outcome (\<open>Inl\<close> an exception that leaves it, \<open>Inr\<close> its
  return value) together with the accesses it made.
\<close>

datatype io_event =
  PathExists string | FileOpen string
  | EngineSync string int | ClientPool | EngineAsync string int

type_synonym 'a io = "(exn + 'a) \<times> io_event list"

definition is_engine_event :: "io_event \<Rightarrow> bool" where
  "is_engine_event ev =
     (case ev of EngineSync _ _ \<Rightarrow> True | ClientPool \<Rightarrow> True | EngineAsync _ _ \<Rightarrow> True
      | _ \<Rightarrow> False)"

section \<open>Private helpers of the service\<close>

text \<open>
  \<^verbatim>\<open>bool(re.match(r'^[a-zA-Z0-9_.-]+$', container_name))\<close>. In Python \<^verbatim>\<open>$\<close> matches
  at the end of the string and also just before a newline that ends the string.
\<close>

definition name_char :: "char \<Rightarrow> bool" where
  "name_char c =
     (let n = (of_char c :: nat)
      in (97 \<le> n \<and> n \<le> 122) \<or> (65 \<le> n \<and> n \<le> 90) \<or> (48 \<le> n \<and> n \<le> 57)
         \<or> c = CHR ''_'' \<or> c = CHR ''.'' \<or> c = CHR ''-'')"

definition re_match_name :: "string \<Rightarrow> bool" where
  "re_match_name s =
     (let body = (if s \<noteq> [] \<and> last s = newline then butlast s else s)
      in body \<noteq> [] \<and> list_all name_char body)"

definition validate_container_name :: "environment \<Rightarrow> string \<Rightarrow> bool" where
  "validate_container_name env name =
     (case common_helpers env of
        Some helper \<Rightarrow> helper name
      | None \<Rightarrow> re_match_name name)"

text \<open>\<^verbatim>\<open>os.path.exists(path)\<close>\<close>

definition os_path_exists :: "environment \<Rightarrow> string \<Rightarrow> bool" where
  "os_path_exists env path = (files env path \<noteq> Absent)"

text \<open>
  \<^verbatim>\<open>_read_log_file\<close>: \<open>None\<close> for a missing file and for one whose opening or
  reading raises (the handler returns \<open>None\<close>); otherwise the lines
  \<^verbatim>\<open>lines[-max_lines:] if len(lines) > max_lines else lines\<close>, joined.
\<close>

definition read_log_file :: "environment \<Rightarrow> string \<Rightarrow> int \<Rightarrow> string option \<times> io_event list" where
  "read_log_file env file_path n =
     (case files env file_path of
        Absent \<Rightarrow> (None, [PathExists file_path])
      | Unreadable \<Rightarrow> (None, [PathExists file_path, FileOpen file_path])
      | Content text \<Rightarrow>
          (let lines = readlines text;
               recent_lines = (if int (length lines) > n then slice_from lines (- n) else lines)
           in (Some (concat recent_lines), [PathExists file_path, FileOpen file_path])))"

text \<open>The test \<^verbatim>\<open>file_content and file_content.strip()\<close>.\<close>

fun has_text :: "string option \<Rightarrow> bool" where
  "has_text None = False"
| "has_text (Some s) = (s \<noteq> [] \<and> strip s \<noteq> [])"

text \<open>
  The loop over the paths of one log type, as it stands in \<^verbatim>\<open>get_container_logs\<close>
  and in the four \<^verbatim>\<open>_get_*_logs\<close> methods: the content of the first path that exists
  and whose tail has text, \<open>None\<close> when the loop falls through.
\<close>

fun try_log_files :: "environment \<Rightarrow> int \<Rightarrow> string list \<Rightarrow> string option \<times> io_event list" where
  "try_log_files env n [] = (None, [])"
| "try_log_files env n (log_path # rest) =
     (if os_path_exists env log_path then
        (case read_log_file env log_path n of
           (file_content, t) \<Rightarrow>
             if has_text file_content then (file_content, PathExists log_path # t)
             else (case try_log_files env n rest of (r, t') \<Rightarrow> (r, PathExists log_path # t @ t')))
      else (case try_log_files env n rest of (r, t') \<Rightarrow> (r, PathExists log_path # t')))"

text \<open>
  The nested loop \<^verbatim>\<open>for log_type, paths in self.log_paths.items()\<close>: the log type and
  the content of the first file with text.
\<close>

fun try_all_log_files ::
  "environment \<Rightarrow> int \<Rightarrow> (string \<times> string list) list \<Rightarrow> (string \<times> string) option \<times> io_event list" where
  "try_all_log_files env n [] = (None, [])"
| "try_all_log_files env n ((kind, paths) # rest) =
     (case try_log_files env n paths of
        (Some file_content, t) \<Rightarrow> (Some (kind, file_content), t)
      | (None, t) \<Rightarrow> (case try_all_log_files env n rest of (r, t') \<Rightarrow> (r, t @ t')))"

text \<open>
  \<^verbatim>\<open>_get_container_logs_sync\<close>. When \<^verbatim>\<open>import docker\<close> raises, the local name
  \<^verbatim>\<open>docker\<close> is unbound, so evaluating the first handler's class
  \<^verbatim>\<open>docker.errors.NotFound\<close> raises \<^verbatim>\<open>UnboundLocalError\<close>, which leaves the
  method. Otherwise the three handlers turn every exception into \<open>None\<close>.
\<close>

definition get_container_logs_sync :: "environment \<Rightarrow> string \<Rightarrow> int \<Rightarrow> string option io" where
  "get_container_logs_sync env name n =
     (if \<not> docker_sdk env then (Inl NameError, [])
      else (case docker_sync env name n of
              Inr logs \<Rightarrow> (Inr (Some logs), [EngineSync name n])
            | Inl NotFound \<Rightarrow> (Inr None, [EngineSync name n])
            | Inl APIError \<Rightarrow> (Inr None, [EngineSync name n])
            | Inl _ \<Rightarrow> (Inr None, [EngineSync name n])))"

text \<open>
  \<^verbatim>\<open>_get_docker_client_async\<close>: the handler turns four classes into \<open>None\<close>
  (here \<open>False\<close>, the falsy value); any other exception leaves the method.
\<close>

definition get_docker_client_async :: "environment \<Rightarrow> bool io" where
  "get_docker_client_async env =
     (case client_pool env of
        Inr ctx \<Rightarrow> (Inr ctx, [ClientPool])
      | Inl e \<Rightarrow>
          if e \<in> {ImportError, AttributeError, TypeError, RuntimeError} then (Inr False, [ClientPool])
          else (Inl e, [ClientPool]))"

text \<open>
  \<^verbatim>\<open>_fetch_container_logs_async\<close>: a missing container gives \<open>None\<close>, an API error
  is raised again as \<^verbatim>\<open>RuntimeError\<close>, the third handler logs and re-raises, and
  every other exception passes through. A failing \<^verbatim>\<open>import docker\<close> ends as in
  the synchronous method.
\<close>

definition fetch_container_logs_async :: "environment \<Rightarrow> string \<Rightarrow> int \<Rightarrow> string option io" where
  "fetch_container_logs_async env name n =
     (if \<not> docker_sdk env then (Inl NameError, [])
      else (case docker_async env name n of
              Inr logs \<Rightarrow> (Inr (Some logs), [EngineAsync name n])
            | Inl NotFound \<Rightarrow> (Inr None, [EngineAsync name n])
            | Inl APIError \<Rightarrow> (Inl RuntimeError, [EngineAsync name n])
            | Inl e \<Rightarrow> (Inl e, [EngineAsync name n])))"

text \<open>
  \<^verbatim>\<open>_get_container_logs_service_first\<close>: its handler turns
  \<^verbatim>\<open>AttributeError\<close>, \<^verbatim>\<open>TypeError\<close> and \<^verbatim>\<open>RuntimeError\<close> into \<open>None\<close>.
\<close>

definition service_first_handler :: "exn \<Rightarrow> exn + string option" where
  "service_first_handler e =
     (if e \<in> {AttributeError, TypeError, RuntimeError} then Inr None else Inl e)"

definition get_container_logs_service_first :: "environment \<Rightarrow> string \<Rightarrow> int \<Rightarrow> string option io" where
  "get_container_logs_service_first env name n =
     (case get_docker_client_async env of
        (Inl e, t) \<Rightarrow> (service_first_handler e, t)
      | (Inr False, t) \<Rightarrow> (Inr None, t)
      | (Inr True, t) \<Rightarrow>
          (case client_enter env of
             Some e \<Rightarrow> (service_first_handler e, t)
           | None \<Rightarrow>
               (case fetch_container_logs_async env name n of
                  (Inl e, t') \<Rightarrow> (service_first_handler e, t @ t')
                | (Inr logs, t') \<Rightarrow> (Inr logs, t @ t'))))"

section \<open>Public operations\<close>

subsection \<open>\<^verbatim>\<open>get_container_logs\<close>\<close>

text \<open>
  The block under \<^verbatim>\<open>if logs_content is None\<close>. With a running loop the coroutine runs
  in a worker thread and \<^verbatim>\<open>.result()\<close> re-raises what it raised; only a
  \<^verbatim>\<open>RuntimeError\<close> reaches the inner handler, whose own \<^verbatim>\<open>asyncio.run\<close> then fails
  inside the running loop and is swallowed. Without a loop \<^verbatim>\<open>get_running_loop\<close> raises
  \<^verbatim>\<open>RuntimeError\<close>, and \<^verbatim>\<open>asyncio.run\<close> is guarded by \<^verbatim>\<open>except Exception\<close>.
\<close>

definition async_retry :: "environment \<Rightarrow> string \<Rightarrow> int \<Rightarrow> string option io" where
  "async_retry env name n =
     (if running_loop env then
        (case get_container_logs_service_first env name n of
           (Inl e, t) \<Rightarrow> if e = RuntimeError then (Inr None, t) else (Inl e, t)
         | (Inr logs, t) \<Rightarrow> (Inr logs, t))
      else
        (case get_container_logs_service_first env name n of
           (Inl e, t) \<Rightarrow> (Inr None, t)
         | (Inr logs, t) \<Rightarrow> (Inr logs, t)))"

definition reading_from :: "string \<Rightarrow> string \<Rightarrow> string" where
  "reading_from kind file_content =
     ''[Reading from '' @ kind @ '' log file]'' @ [newline, newline] @ file_content"

definition reading_from_unavailable :: "string \<Rightarrow> string \<Rightarrow> string" where
  "reading_from_unavailable kind file_content =
     ''[Reading from '' @ kind @ '' log file - Docker API unavailable]''
     @ [newline, newline] @ file_content"

definition not_found_message :: "string \<Rightarrow> string" where
  "not_found_message name =
     ''Container '' @ [CHR 0x27] @ name @ [CHR 0x27] @ '' not found and no log files available''"

text \<open>The body of the \<^verbatim>\<open>try\<close> statement, steps 1 to 3 and the last resort.\<close>

definition get_container_logs_try ::
  "ContainerLogService \<Rightarrow> environment \<Rightarrow> ContainerLogRequest \<Rightarrow> LogResult io" where
  "get_container_logs_try svc env request =
     (let name = container_name request; n = max_lines request
      in if \<not> validate_container_name env name
         then (Inr (LogResult_fail ''Invalid container name'' 400), [])
         else
           (case (if name = default_container svc
                  then try_log_files env n (paths_of ''container'') else (None, [])) of
              (Some file_content, t1) \<Rightarrow> (Inr (LogResult_ok file_content), t1)
            | (None, t1) \<Rightarrow>
                (case get_container_logs_sync env name n of
                   (Inl e, t2) \<Rightarrow> (Inl e, t1 @ t2)
                 | (Inr (Some logs), t2) \<Rightarrow> (Inr (LogResult_ok logs), t1 @ t2)
                 | (Inr None, t2) \<Rightarrow>
                     (case async_retry env name n of
                        (Inl e, t3) \<Rightarrow> (Inl e, t1 @ t2 @ t3)
                      | (Inr (Some logs), t3) \<Rightarrow> (Inr (LogResult_ok logs), t1 @ t2 @ t3)
                      | (Inr None, t3) \<Rightarrow>
                          (case try_all_log_files env n log_paths of
                             (Some (kind, file_content), t4) \<Rightarrow>
                               (Inr (LogResult_ok (reading_from kind file_content)),
                                t1 @ t2 @ t3 @ t4)
                           | (None, t4) \<Rightarrow>
                               (Inr (LogResult_fail (not_found_message name) 404),
                                t1 @ t2 @ t3 @ t4))))))"

text \<open>
  The whole method: the outer handler takes five classes, tries the files once more
  and answers 500; an exception of any other class leaves the method.
\<close>

definition get_container_logs ::
  "ContainerLogService \<Rightarrow> environment \<Rightarrow> ContainerLogRequest \<Rightarrow> LogResult io" where
  "get_container_logs svc env request =
     (case get_container_logs_try svc env request of
        (Inr result, t) \<Rightarrow> (Inr result, t)
      | (Inl e, t) \<Rightarrow>
          if e \<in> {ImportError, AttributeError, TypeError, ValueError, RuntimeError} then
            (case try_all_log_files env (max_lines request) log_paths of
               (Some (kind, file_content), t') \<Rightarrow>
                 (Inr (LogResult_ok (reading_from_unavailable kind file_content)), t @ t')
             | (None, t') \<Rightarrow> (Inr (LogResult_fail ''An unexpected error occurred'' 500), t @ t'))
          else (Inl e, t))"

subsection \<open>\<^verbatim>\<open>get_filtered_logs\<close>\<close>

text \<open>
  The filtering loop of \<^verbatim>\<open>_get_filtered_container_logs\<close>: a line is appended when
  some lower-cased pattern occurs in the lower-cased line.
\<close>

definition line_matches :: "string list \<Rightarrow> string \<Rightarrow> bool" where
  "line_matches filter_patterns line =
     list_ex (\<lambda>pattern. str_in pattern (lower line)) (map lower filter_patterns)"

fun filter_lines :: "string list \<Rightarrow> string list \<Rightarrow> string list \<Rightarrow> string list" where
  "filter_lines filter_patterns [] filtered = filtered"
| "filter_lines filter_patterns (line # rest) filtered =
     filter_lines filter_patterns rest
       (if line_matches filter_patterns line then filtered @ [line] else filtered)"

text \<open>
  The asynchronous retry of \<^verbatim>\<open>_get_filtered_container_logs\<close>. With a running loop the
  coroutine is wrapped in a task, and \<^verbatim>\<open>asyncio.run_coroutine_threadsafe\<close> refuses
  anything but a coroutine object with \<^verbatim>\<open>TypeError\<close>; the task itself runs only after
  the method has returned. Without a loop \<^verbatim>\<open>asyncio.run\<close> is guarded by
  \<^verbatim>\<open>except Exception: pass\<close>.
\<close>

definition filtered_async_retry :: "environment \<Rightarrow> string \<Rightarrow> int \<Rightarrow> string option io" where
  "filtered_async_retry env name n =
     (if running_loop env then (Inl TypeError, [])
      else
        (case get_container_logs_service_first env name n of
           (Inl e, t) \<Rightarrow> (Inr None, t)
         | (Inr logs, t) \<Rightarrow> (Inr logs, t)))"

definition filtered_handler :: "string \<Rightarrow> exn \<Rightarrow> exn + LogResult" where
  "filtered_handler no_logs_message e =
     (if e \<in> {AttributeError, TypeError, RuntimeError, ValueError}
      then Inr (LogResult_ok no_logs_message) else Inl e)"

definition get_filtered_container_logs ::
  "ContainerLogService \<Rightarrow> environment \<Rightarrow> int \<Rightarrow> string list \<Rightarrow> string \<Rightarrow> LogResult io" where
  "get_filtered_container_logs svc env n filter_patterns no_logs_message =
     (case get_container_logs_sync env (default_container svc) (n * 2) of
        (Inl e, t) \<Rightarrow> (filtered_handler no_logs_message e, t)
      | (Inr sync_logs, t) \<Rightarrow>
          (case (if sync_logs = None
                 then filtered_async_retry env (default_container svc) (n * 2)
                 else (Inr sync_logs, [])) of
             (Inl e, t') \<Rightarrow> (filtered_handler no_logs_message e, t @ t')
           | (Inr None, t') \<Rightarrow> (Inr (LogResult_ok no_logs_message), t @ t')
           | (Inr (Some logs_str), t') \<Rightarrow>
               (let filtered_lines = filter_lines filter_patterns (split_nl logs_str) [];
                    filtered_logs =
                      (if filtered_lines \<noteq> [] then join_nl (slice_from filtered_lines (- n))
                       else no_logs_message)
                in (Inr (LogResult_ok filtered_logs), t @ t'))))"

text \<open>
  The common shape of \<^verbatim>\<open>_get_bot_logs\<close>, \<^verbatim>\<open>_get_discord_logs\<close>,
  \<^verbatim>\<open>_get_webui_logs\<close> and \<^verbatim>\<open>_get_application_logs\<close>: the files of the log
  type first, then the filtered container logs.
\<close>

definition file_then_filtered ::
  "ContainerLogService \<Rightarrow> environment \<Rightarrow> int \<Rightarrow> string \<Rightarrow> string list \<Rightarrow> string \<Rightarrow> LogResult io" where
  "file_then_filtered svc env n key filter_patterns no_logs_message =
     (case try_log_files env n (paths_of key) of
        (Some file_content, t) \<Rightarrow> (Inr (LogResult_ok file_content), t)
      | (None, t) \<Rightarrow>
          (case get_filtered_container_logs svc env n filter_patterns no_logs_message of
             (r, t') \<Rightarrow> (r, t @ t')))"

definition bot_patterns :: "string list" where
  "bot_patterns =
     [''bot.py'', ''cog'', ''discord.py'', ''discord bot'', ''command'', ''slash'', ''cache'',
      ''container'', ''update'']"

definition discord_patterns :: "string list" where
  "discord_patterns =
     [''discord'', ''guild'', ''channel'', ''member'', ''message'', ''voice'', ''websocket'']"

definition webui_patterns :: "string list" where
  "webui_patterns =
     [''flask'', ''Flask'', ''gunicorn'', ''Gunicorn'', ''GET /'', ''POST /'', ''HTTP'',
      ''127.0.0.1'', ''0.0.0.0:5000'', ''werkzeug'', ''jinja2'']"

definition application_patterns :: "string list" where
  "application_patterns =
     [''ERROR'', ''WARNING'', ''INFO'', ''DEBUG'', ''Starting'', ''Stopping'', ''Initializing'',
      ''Config'', ''Database'', ''Scheduler'']"

definition get_bot_logs :: "ContainerLogService \<Rightarrow> environment \<Rightarrow> int \<Rightarrow> LogResult io" where
  "get_bot_logs svc env n =
     file_then_filtered svc env n ''bot'' bot_patterns ''No bot logs found''"

definition get_discord_logs :: "ContainerLogService \<Rightarrow> environment \<Rightarrow> int \<Rightarrow> LogResult io" where
  "get_discord_logs svc env n =
     file_then_filtered svc env n ''discord'' discord_patterns ''No Discord logs found''"

definition get_webui_logs :: "ContainerLogService \<Rightarrow> environment \<Rightarrow> int \<Rightarrow> LogResult io" where
  "get_webui_logs svc env n =
     file_then_filtered svc env n ''webui'' webui_patterns ''No Web UI logs found''"

definition get_application_logs :: "ContainerLogService \<Rightarrow> environment \<Rightarrow> int \<Rightarrow> LogResult io" where
  "get_application_logs svc env n =
     file_then_filtered svc env n ''application'' application_patterns
       ''No application logs found''"

text \<open>\<^verbatim>\<open>log_type.value\<close>\<close>

fun value_LogType :: "LogType \<Rightarrow> string" where
  "value_LogType CONTAINER = ''container''"
| "value_LogType BOT = ''bot''"
| "value_LogType DISCORD = ''discord''"
| "value_LogType WEBUI = ''webui''"
| "value_LogType APPLICATION = ''application''"
| "value_LogType ACTION = ''action''"

definition get_filtered_logs ::
  "ContainerLogService \<Rightarrow> environment \<Rightarrow> FilteredLogRequest \<Rightarrow> LogResult io" where
  "get_filtered_logs svc env request =
     (case (case log_type request of
              BOT \<Rightarrow> get_bot_logs svc env (filtered_max_lines request)
            | DISCORD \<Rightarrow> get_discord_logs svc env (filtered_max_lines request)
            | WEBUI \<Rightarrow> get_webui_logs svc env (filtered_max_lines request)
            | APPLICATION \<Rightarrow> get_application_logs svc env (filtered_max_lines request)
            | _ \<Rightarrow>
                (Inr (LogResult_fail
                        (''Unsupported log type: '' @ str_LogType (log_type request)) 400), [])) of
        (Inr result, t) \<Rightarrow> (Inr result, t)
      | (Inl e, t) \<Rightarrow>
          if e \<in> {AttributeError, TypeError, ValueError, RuntimeError}
          then (Inr (LogResult_fail
                       (''Error fetching '' @ value_LogType (log_type request) @ '' logs'') 500), t)
          else (Inl e, t))"

subsection \<open>\<^verbatim>\<open>clear_logs\<close>\<close>

text \<open>
  \<^verbatim>\<open>request.log_type.capitalize()\<close>: only a string has the method; on any other value
  the attribute lookup raises \<^verbatim>\<open>AttributeError\<close>, whose text is \<open>no_attribute_message\<close>.
\<close>

definition py_capitalize :: "py_value \<Rightarrow> exn + string" where
  "py_capitalize v = (case v of PyStr s \<Rightarrow> Inr (capitalize s) | _ \<Rightarrow> Inl AttributeError)"

definition no_attribute_message :: "py_value \<Rightarrow> string \<Rightarrow> string" where
  "no_attribute_message v attr =
     [CHR 0x27] @ type_name v @ [CHR 0x27] @ '' object has no attribute ''
     @ [CHR 0x27] @ attr @ [CHR 0x27]"

definition clear_message :: "string \<Rightarrow> string" where
  "clear_message capitalized =
     capitalized
     @ '' logs cleared (Note: Docker container logs persist until container restart)''"

text \<open>
  The method logs the request and builds its answer; nothing is read, written or asked
  of the engine. Its handler takes \<^verbatim>\<open>AttributeError\<close>, \<^verbatim>\<open>TypeError\<close> and
  \<^verbatim>\<open>ValueError\<close> and answers 500 with \<^verbatim>\<open>str(e)\<close>.
\<close>

definition clear_logs ::
  "ContainerLogService \<Rightarrow> environment \<Rightarrow> ClearLogRequest \<Rightarrow> LogResult io" where
  "clear_logs svc env request =
     (case py_capitalize (clear_log_type request) of
        Inr capitalized \<Rightarrow>
          (Inr \<lparr>success = True, content = None,
                data = Some [(''success'', PyBool True),
                             (''message'', PyStr (clear_message capitalized))],
                error = None, status_code = 200\<rparr>, [])
      | Inl e \<Rightarrow>
          if e \<in> {AttributeError, TypeError, ValueError}
          then (Inr (LogResult_fail
                       (no_attribute_message (clear_log_type request) ''capitalize'') 500), [])
          else (Inl e, []))"

section \<open>Notions used to state the properties\<close>

text \<open>The text made of the last \<open>n\<close> lines of a text.\<close>

definition last_lines :: "nat \<Rightarrow> string \<Rightarrow> string" where
  "last_lines n text = concat (drop (length (readlines text) - n) (readlines text))"

text \<open>A path holds a readable file whose last \<open>n\<close> lines are not all whitespace.\<close>

definition tail_has_text :: "environment \<Rightarrow> int \<Rightarrow> string \<Rightarrow> bool" where
  "tail_has_text env n path =
     (case files env path of
        Content text \<Rightarrow> strip (last_lines (nat n) text) \<noteq> []
      | _ \<Rightarrow> False)"


text \<open>
  The lines that contain, ignoring case, at least one keyword, in their order, and the
  last \<open>min K n\<close> of these \<open>K\<close> lines.
\<close>

definition matching_lines :: "string list \<Rightarrow> string list \<Rightarrow> string list" where
  "matching_lines keywords lines =
     filter (\<lambda>line. list_ex (\<lambda>k. str_in (lower k) (lower line)) keywords) lines"

definition last_matching :: "string list \<Rightarrow> nat \<Rightarrow> string list \<Rightarrow> string list" where
  "last_matching keywords n lines =
     (let m = matching_lines keywords lines; K = length m
      in drop (K - min K n) m)"

text \<open>
  The text that \<^verbatim>\<open>_get_filtered_container_logs\<close> obtains for the service's own
  container when it asks for \<open>2 * n\<close> lines: the answer to the synchronous query or,
  when that query failed and no event loop runs, the answer to the asynchronous one.
\<close>

definition combined_log_text ::
  "ContainerLogService \<Rightarrow> environment \<Rightarrow> int \<Rightarrow> string \<Rightarrow> bool" where
  "combined_log_text svc env n logs_str =
     (docker_sdk env
      \<and> (case docker_sync env (default_container svc) (n * 2) of
            Inr logs \<Rightarrow> logs = logs_str
          | Inl _ \<Rightarrow>
              \<not> running_loop env
              \<and> fst (get_container_logs_service_first env (default_container svc) (n * 2))
                  = Inr (Some logs_str)))"





text \<open>
  Two states agree on everything a filtered request of the given log type can read:
  the files of that log type and the engine's answers for the service's own container.
\<close>

definition same_backing_state ::
  "ContainerLogService \<Rightarrow> LogType \<Rightarrow> environment \<Rightarrow> environment \<Rightarrow> bool" where
  "same_backing_state svc t env1 env2 =
     (list_all (\<lambda>p. files env1 p = files env2 p) (paths_of (value_LogType t))
      \<and> docker_sdk env1 = docker_sdk env2
      \<and> docker_sync env1 (default_container svc) = docker_sync env2 (default_container svc)
      \<and> running_loop env1 = running_loop env2
      \<and> client_pool env1 = client_pool env2
      \<and> client_enter env1 = client_enter env2
      \<and> docker_async env1 (default_container svc) = docker_async env2 (default_container svc))"

section \<open>Concrete situations\<close>

text \<open>
  A service with the default identity, and a state in which the fallback validation is
  in use, no log file exists, the engine knows no container, no event loop runs and
  the client pool cannot be imported.
\<close>

definition ddc_service :: ContainerLogService where
  "ddc_service = \<lparr>default_container = ''ddc''\<rparr>"

definition base_env :: environment where
  "base_env =
     \<lparr>common_helpers = None, files = (\<lambda>_. Absent), docker_sdk = True,
      docker_sync = (\<lambda>_ _. Inl NotFound), running_loop = False,
      client_pool = Inl ImportError, client_enter = None,
      docker_async = (\<lambda>_ _. Inl NotFound)\<rparr>"

definition supervisord_log :: string where
  "supervisord_log = ''/app/logs/supervisord.log''"

text \<open>The combined log ends with an empty line after its only line of text.\<close>

definition blank_tail_env :: environment where
  "blank_tail_env =
     base_env\<lparr>files := (\<lambda>_. Absent)(supervisord_log := Content (''hello'' @ [newline, newline]))\<rparr>"

text \<open>The combined log has three lines.\<close>

definition three_lines_env :: environment where
  "three_lines_env =
     base_env\<lparr>files := (\<lambda>_. Absent)
       (supervisord_log := Content (''a'' @ [newline] @ ''b'' @ [newline] @ ''c'' @ [newline]))\<rparr>"


text \<open>The engine answers every query with one line that holds no keyword.\<close>

definition hello_env :: environment where
  "hello_env = base_env\<lparr>docker_sync := (\<lambda>_ _. Inr ''hello'')\<rparr>"

text \<open>The engine answers every query with three lines, two of them about the bot.\<close>

definition bot_lines_env :: environment where
  "bot_lines_env =
     base_env\<lparr>docker_sync :=
       (\<lambda>_ _. Inr (''run Bot.PY'' @ [newline] @ ''x'' @ [newline] @ ''the COG''))\<rparr>"

text \<open>The engine fails every query with an API error.\<close>

definition api_error_env :: environment where
  "api_error_env = base_env\<lparr>docker_sync := (\<lambda>_ _. Inl APIError)\<rparr>"

text \<open>
  An event loop runs, the pooled client is there, and the query through it raises a
  \<^verbatim>\<open>ValueError\<close>.
\<close>

definition loop_value_error_env :: environment where
  "loop_value_error_env =
     base_env\<lparr>running_loop := True, client_pool := Inr True,
       docker_async := (\<lambda>_ _. Inl ValueError)\<rparr>"

text \<open>
  An event loop runs, and getting the pooled client fails with an exception of a class
  that no handler names (a connection error, a timeout).
\<close>

definition loop_pool_error_env :: environment where
  "loop_pool_error_env = base_env\<lparr>running_loop := True, client_pool := Inl OtherException\<rparr>"

text \<open>The Docker SDK for Python is not installed.\<close>

definition no_sdk_env :: environment where
  "no_sdk_env = base_env\<lparr>docker_sdk := False\<rparr>"

text \<open>A bot log exists beside the state of \<open>base_env\<close>.\<close>

definition bot_log_env :: environment where
  "bot_log_env =
     base_env\<lparr>files := (\<lambda>_. Absent)(''/app/logs/bot.log'' := Content ''bot started'')\<rparr>"

text \<open>The same, with a Discord log in addition.\<close>

definition bot_and_discord_log_env :: environment where
  "bot_and_discord_log_env =
     base_env\<lparr>files := (\<lambda>_. Absent)
       (''/app/logs/bot.log'' := Content ''bot started'',
        ''/app/logs/discord.log'' := Content ''connected'')\<rparr>"




text \<open>The request for the last 500 lines of a container named \<^verbatim>\<open>web\<close>.\<close>

definition web500 :: ContainerLogRequest where
  "web500 = \<lparr>container_name = ''web'', max_lines = 500\<rparr>"

section \<open>Facts about the text primitives\<close>

lemma strip_eq_Nil_iff: "strip s = [] \<longleftrightarrow> (\<forall>c\<in>set s. isspace c)"
  unfolding strip_def
  by (metis dropWhile_eq_Nil_conv set_rev rev_is_Nil_conv dropWhile_idem)

lemma concat_readlines: "concat (readlines s) = s"
  by (induction s) (auto split: list.splits)

lemma str_in_iff: "str_in sub s \<longleftrightarrow> (\<exists>pre post. s = pre @ sub @ post)"
proof (induction s)
  case Nil
  then show ?case by auto
next
  case (Cons c cs)
  have a: "take (length sub) (c # cs) = sub \<longleftrightarrow> (\<exists>post. c # cs = sub @ post)"
    by (metis append_eq_conv_conj append_take_drop_id)
  have b: "(\<exists>pre post. c # cs = pre @ sub @ post) \<longleftrightarrow>
        (\<exists>post. c # cs = sub @ post) \<or> (\<exists>pre post. cs = pre @ sub @ post)"
    by (metis append_eq_Cons_conv append_self_conv2)
  show ?case using Cons a b by simp
qed


lemma filter_lines_eq:
  "filter_lines pats ls acc = acc @ filter (line_matches pats) ls"
  by (induction ls arbitrary: acc) auto

section \<open>Container logs: validation\<close>

text \<open>
  Claim C1. A container name with a character outside \<^verbatim>\<open>[A-Za-z0-9_.-]\<close> is to be
  refused with "Invalid container name" and status 400 before any file or engine is
  touched. The fallback validation lets one name of that kind through: \<^verbatim>\<open>ddc\<close>
  followed by a newline is not made of name characters only, yet it is accepted, the
  engine is queried for it, and the answer is the 404 of a missing container.
\<close>

theorem C1_trailing_newline_accepted:
  "\<not> list_all name_char (''ddc'' @ [newline])
   \<and> validate_container_name base_env (''ddc'' @ [newline])
   \<and> fst (get_container_logs ddc_service base_env
            \<lparr>container_name = ''ddc'' @ [newline], max_lines = 500\<rparr>)
       = Inr (LogResult_fail (not_found_message (''ddc'' @ [newline])) 404)
   \<and> hd (snd (get_container_logs ddc_service base_env
            \<lparr>container_name = ''ddc'' @ [newline], max_lines = 500\<rparr>))
       = EngineSync (''ddc'' @ [newline]) 500"
  by code_simp

section \<open>Exceptions that leave the service\<close>

text \<open>
  Claim C6. \<^verbatim>\<open>get_container_logs\<close> is to turn every failure into a result with
  \<open>success = False\<close> and never raise. Where the Docker SDK is not installed, the request
  for a container other than the service's own ends with the \<^verbatim>\<open>NameError\<close> of the
  synchronous query leaving the method, no result being returned.
\<close>

theorem C6_missing_sdk_raises:
  "get_container_logs ddc_service no_sdk_env \<lparr>container_name = ''web'', max_lines = 500\<rparr>
     = (Inl NameError, [])"
  by code_simp

text \<open>
  Claim C7. In the filtered fallback every failure of the container-log step is to
  end as a success carrying the placeholder of the log type. Where the Docker SDK is
  not installed and no bot log exists, the request for the bot logs ends with the
  \<^verbatim>\<open>NameError\<close> of the synchronous query leaving \<^verbatim>\<open>get_filtered_logs\<close>, after
  the two bot log paths were looked up.
\<close>

theorem C7_missing_sdk_raises:
  "get_filtered_logs ddc_service no_sdk_env \<lparr>log_type = BOT, filtered_max_lines = 500\<rparr>
     = (Inl NameError,
        [PathExists ''/app/logs/bot.log'',
         PathExists ''/Volumes/appdata/dockerdiscordcontrol/logs/bot.log''])"
  by code_simp

section \<open>Clearing logs\<close>

lemma clear_message_has_note:
  "str_in ''persist until container restart'' (clear_message capitalized)"
proof -
  have "clear_message capitalized =
      (capitalized @ '' logs cleared (Note: Docker container logs '')
      @ ''persist until container restart'' @ '')''"
    by (simp add: clear_message_def)
  then show ?thesis
    unfolding str_in_iff by blast
qed

text \<open>
  Claim C8, as the code has it. \<^verbatim>\<open>clear_logs\<close> never touches a file or the engine.
  For a request whose log type is a string it returns a success whose message
  contains "persist until container restart". For a log type that is not a string the
  failed call of \<^verbatim>\<open>capitalize\<close> is caught, and the answer is a failure with status 500
  carrying the text of the \<^verbatim>\<open>AttributeError\<close>.
\<close>

theorem C8_clear_logs_by_log_type:
  "snd (clear_logs svc env request) = []
   \<and> (\<forall>kind. clear_log_type request = PyStr kind \<longrightarrow>
         fst (clear_logs svc env request)
           = Inr \<lparr>success = True, content = None,
                  data = Some [(''success'', PyBool True),
                               (''message'', PyStr (clear_message (capitalize kind)))],
                  error = None, status_code = 200\<rparr>
         \<and> str_in ''persist until container restart'' (clear_message (capitalize kind)))
   \<and> ((\<forall>kind. clear_log_type request \<noteq> PyStr kind) \<longrightarrow>
         fst (clear_logs svc env request)
           = Inr (LogResult_fail (no_attribute_message (clear_log_type request) ''capitalize'') 500))"
  by (cases "clear_log_type request")
     (simp_all add: clear_logs_def py_capitalize_def clear_message_has_note)

theorem C8_clear_logs_by_log_type_witness:
  "clear_log_type \<lparr>clear_log_type = PyStr ''container''\<rparr> = PyStr ''container''
   \<and> fst (clear_logs ddc_service base_env \<lparr>clear_log_type = PyStr ''container''\<rparr>)
       = Inr \<lparr>success = True, content = None,
              data = Some [(''success'', PyBool True),
                           (''message'', PyStr ''Container logs cleared (Note: Docker container logs persist until container restart)'')],
              error = None, status_code = 200\<rparr>
   \<and> (\<forall>kind. clear_log_type \<lparr>clear_log_type = PyInt 5\<rparr> \<noteq> PyStr kind)
   \<and> fst (clear_logs ddc_service base_env \<lparr>clear_log_type = PyInt 5\<rparr>)
       = Inr (LogResult_fail (no_attribute_message (PyInt 5) ''capitalize'') 500)"
proof -
  have c: "clear_message (capitalize ''container'')
      = ''Container logs cleared (Note: Docker container logs persist until container restart)''"
    by code_simp
  show ?thesis
    using C8_clear_logs_by_log_type [of ddc_service base_env "\<lparr>clear_log_type = PyStr ''container''\<rparr>"]
      C8_clear_logs_by_log_type [of ddc_service base_env "\<lparr>clear_log_type = PyInt 5\<rparr>"] c
    by simp
qed

text \<open>
  Claim C8 as first stated promises the success for every value of the log type. A
  request built from the JSON body \<^verbatim>\<open>{"log_type": null}\<close> gets the failure.
\<close>

theorem C8_counterexample:
  "fst (clear_logs ddc_service base_env \<lparr>clear_log_type = PyNone\<rparr>)
     = Inr (LogResult_fail
              ([CHR 0x27] @ ''NoneType'' @ [CHR 0x27] @ '' object has no attribute ''
               @ [CHR 0x27] @ ''capitalize'' @ [CHR 0x27]) 500)
   \<and> \<not> success (LogResult_fail
              ([CHR 0x27] @ ''NoneType'' @ [CHR 0x27] @ '' object has no attribute ''
               @ [CHR 0x27] @ ''capitalize'' @ [CHR 0x27]) 500)"
  by code_simp

section \<open>Filtered logs: unsupported log types\<close>

text \<open>
  Claim C10. A filtered request whose log type is \<open>CONTAINER\<close> or \<open>ACTION\<close> is answered
  with a failure of status 400 whose error names the unsupported log type, and no
  file or engine is touched.
\<close>

theorem C10_unsupported_log_type:
  "log_type request \<in> {CONTAINER, ACTION} \<Longrightarrow>
   get_filtered_logs svc env request =
     (Inr (LogResult_fail (''Unsupported log type: '' @ str_LogType (log_type request)) 400), [])"
  by (auto simp: get_filtered_logs_def)

theorem C10_unsupported_log_type_witness:
  "log_type \<lparr>log_type = ACTION, filtered_max_lines = 500\<rparr> \<in> {CONTAINER, ACTION}
   \<and> get_filtered_logs ddc_service bot_log_env \<lparr>log_type = ACTION, filtered_max_lines = 500\<rparr> =
       (Inr (LogResult_fail ''Unsupported log type: LogType.ACTION'' 400), [])"
  using C10_unsupported_log_type
    [of "\<lparr>log_type = ACTION, filtered_max_lines = 500\<rparr>" ddc_service bot_log_env]
  by simp

section \<open>Container logs: the service's own log file\<close>

lemma read_log_file_Content:
  assumes "files env p = Content body" and "0 < n"
  shows "fst (read_log_file env p n) = Some (last_lines (nat n) body)"
proof -
  let ?ls = "readlines body"
  have "(if int (length ?ls) > n then slice_from ?ls (- n) else ?ls)
          = drop (length ?ls - nat n) ?ls"
    using assms(2) by (auto simp: slice_from_def nat_diff_distrib')
  then show ?thesis
    using assms(1) by (simp add: read_log_file_def last_lines_def Let_def)
qed

lemma strip_Nil: "strip [] = []"
  by (simp add: strip_def)

lemma has_text_read_log_file:
  assumes "0 < n"
  shows "os_path_exists env p \<and> has_text (fst (read_log_file env p n)) \<longleftrightarrow> tail_has_text env n p"
proof (cases "files env p")
  case (Content body)
  then show ?thesis
    using read_log_file_Content [OF Content assms]
    by (auto simp: tail_has_text_def os_path_exists_def strip_Nil)
qed (simp_all add: tail_has_text_def os_path_exists_def read_log_file_def)

lemma try_log_files_find:
  assumes "0 < n"
  shows "fst (try_log_files env n ps) =
     (case find (tail_has_text env n) ps of
        None \<Rightarrow> None
      | Some p \<Rightarrow> fst (read_log_file env p n))"
proof (induction ps)
  case Nil
  then show ?case by simp
next
  case (Cons p ps)
  show ?case
    using Cons has_text_read_log_file [OF assms, of env p]
    by (auto split: prod.splits)
qed

lemma read_log_file_events: "list_all (\<lambda>ev. \<not> is_engine_event ev) (snd (read_log_file env p n))"
  by (simp add: read_log_file_def is_engine_event_def Let_def split: file_state.splits)

lemma try_log_files_events: "list_all (\<lambda>ev. \<not> is_engine_event ev) (snd (try_log_files env n ps))"
proof (induction ps)
  case Nil
  then show ?case by simp
next
  case (Cons p ps)
  show ?case
    using Cons read_log_file_events [of env p n]
    by (auto simp: is_engine_event_def split: prod.splits)
qed

text \<open>
  Claim C2, as the code has it. For a valid request for the service's own container
  and a positive line count, when some path of the \<^verbatim>\<open>container\<close> list holds a readable
  file whose last \<open>max_lines\<close> lines are not all whitespace, the answer is a success
  carrying exactly the last \<open>max_lines\<close> lines of the first such file, and the
  container engine is not queried.
\<close>

theorem C2_own_container_reads_file:
  assumes "validate_container_name env (container_name request)"
    and "container_name request = default_container svc"
    and "0 < max_lines request"
    and "find (tail_has_text env (max_lines request)) (paths_of ''container'') = Some path"
  shows "\<exists>body t. files env path = Content body
           \<and> get_container_logs svc env request
               = (Inr (LogResult_ok (last_lines (nat (max_lines request)) body)), t)
           \<and> \<not> list_ex is_engine_event t"
proof -
  let ?n = "max_lines request"
  obtain r t where rt: "try_log_files env ?n (paths_of ''container'') = (r, t)"
    by (cases "try_log_files env ?n (paths_of ''container'')")
  have "tail_has_text env ?n path"
    using assms(4) by (auto simp: find_Some_iff)
  then obtain body where body: "files env path = Content body"
    by (auto simp: tail_has_text_def split: file_state.splits)
  have "r = Some (last_lines (nat ?n) body)"
    using try_log_files_find [OF assms(3), of env "paths_of ''container''"] rt assms(4)
      read_log_file_Content [OF body assms(3)]
    by simp
  moreover have "\<not> list_ex is_engine_event t"
    using try_log_files_events [of env ?n "paths_of ''container''"] rt
    by (simp add: list_all_iff list_ex_iff)
  ultimately show ?thesis
    using assms(1,2) rt body
    by (simp add: get_container_logs_def get_container_logs_try_def Let_def)
qed

theorem C2_own_container_reads_file_witness:
  "validate_container_name three_lines_env ''ddc''
   \<and> ''ddc'' = default_container ddc_service
   \<and> (0::int) < 2
   \<and> find (tail_has_text three_lines_env 2) (paths_of ''container'') = Some supervisord_log
   \<and> (\<exists>t. get_container_logs ddc_service three_lines_env \<lparr>container_name = ''ddc'', max_lines = 2\<rparr>
             = (Inr (LogResult_ok (''b'' @ [newline] @ ''c'' @ [newline])), t)
           \<and> \<not> list_ex is_engine_event t)"
proof -
  let ?req = "\<lparr>container_name = ''ddc'', max_lines = 2\<rparr>"
  have h1: "validate_container_name three_lines_env (container_name ?req)" by code_simp
  have h2: "container_name ?req = default_container ddc_service" by code_simp
  have h3: "0 < max_lines ?req" by simp
  have h4: "find (tail_has_text three_lines_env (max_lines ?req)) (paths_of ''container'')
              = Some supervisord_log" by code_simp
  have f: "files three_lines_env supervisord_log
             = Content (''a'' @ [newline] @ ''b'' @ [newline] @ ''c'' @ [newline])"
    by (simp add: three_lines_env_def)
  have l: "last_lines 2 (''a'' @ [newline] @ ''b'' @ [newline] @ ''c'' @ [newline])
             = ''b'' @ [newline] @ ''c'' @ [newline]" by code_simp
  show ?thesis
    using C2_own_container_reads_file [OF h1 h2 h3 h4] h1 h2 h4 f l by auto
qed

text \<open>
  Claim C2 as first stated asks only that the file have text somewhere. The combined
  log \<^verbatim>\<open>hello\<close> followed by an empty line has text, but its last line has none: asked
  for one line, the service skips the file, queries the engine and answers 404.
\<close>

theorem C2_counterexample:
  "validate_container_name blank_tail_env ''ddc''
   \<and> ''ddc'' = default_container ddc_service
   \<and> supervisord_log \<in> set (paths_of ''container'')
   \<and> files blank_tail_env supervisord_log = Content (''hello'' @ [newline, newline])
   \<and> strip (''hello'' @ [newline, newline]) \<noteq> []
   \<and> fst (get_container_logs ddc_service blank_tail_env \<lparr>container_name = ''ddc'', max_lines = 1\<rparr>)
       = Inr (LogResult_fail (not_found_message ''ddc'') 404)
   \<and> EngineSync ''ddc'' 1
       \<in> set (snd (get_container_logs ddc_service blank_tail_env \<lparr>container_name = ''ddc'', max_lines = 1\<rparr>))"
  by code_simp


section \<open>What a success carries\<close>



lemma strip_append_right: "strip c \<noteq> [] \<Longrightarrow> strip (p @ c) \<noteq> []"
  by (auto simp: strip_eq_Nil_iff)










section \<open>The filtered fallback\<close>

lemma line_matches_eq:
  "line_matches pats line = list_ex (\<lambda>k. str_in (lower k) (lower line)) pats"
  by (simp add: line_matches_def list_ex_iff)

lemma filter_lines_matching: "filter_lines pats ls [] = matching_lines pats ls"
proof -
  have "line_matches pats = (\<lambda>line. list_ex (\<lambda>k. str_in (lower k) (lower line)) pats)"
    by (rule ext) (rule line_matches_eq)
  then show ?thesis
    by (simp add: filter_lines_eq matching_lines_def)
qed

lemma slice_from_neg: "0 < n \<Longrightarrow> slice_from xs (- n) = drop (length xs - nat n) xs"
  by (auto simp: slice_from_def nat_diff_distrib')

lemma last_matching_drop:
  "last_matching pats n ls
     = drop (length (matching_lines pats ls) - n) (matching_lines pats ls)"
proof -
  have "length (matching_lines pats ls) - min (length (matching_lines pats ls)) n
          = length (matching_lines pats ls) - n"
    by arith
  then show ?thesis
    by (simp add: last_matching_def Let_def)
qed











text \<open>
  Claim C4, as the code has it. Let the text obtained from the engine for the
  service's own container (asked for twice \<open>n\<close> lines, \<open>n\<close> positive) split at newlines
  into lines of which \<open>K\<close> contain a keyword, ignoring case. When \<open>K\<close> is positive
  the filtered fallback returns exactly the last \<open>min K n\<close> of these lines, in their
  order, joined by newlines; when \<open>K\<close> is zero it returns the placeholder message.
\<close>

theorem C4_filtered_tail:
  assumes "combined_log_text svc env n logs_str" and "0 < n"
  shows "fst (get_filtered_container_logs svc env n keywords no_logs_message) =
     Inr (LogResult_ok
           (if matching_lines keywords (split_nl logs_str) = [] then no_logs_message
            else join_nl (last_matching keywords (nat n) (split_nl logs_str))))"
proof -
  have tl: "slice_from (matching_lines keywords (split_nl logs_str)) (- n)
        = last_matching keywords (nat n) (split_nl logs_str)"
    by (simp add: slice_from_neg [OF assms(2)] last_matching_drop)
  show ?thesis
    using assms(1) tl
    by (auto simp: combined_log_text_def get_filtered_container_logs_def
          get_container_logs_sync_def filtered_async_retry_def filter_lines_matching Let_def
        split: sum.splits exn.splits prod.splits)
qed

theorem C4_filtered_tail_witness:
  "combined_log_text ddc_service bot_lines_env 1
       (''run Bot.PY'' @ [newline] @ ''x'' @ [newline] @ ''the COG'')
   \<and> (0::int) < 1
   \<and> matching_lines bot_patterns (split_nl (''run Bot.PY'' @ [newline] @ ''x'' @ [newline] @ ''the COG''))
       = [''run Bot.PY'', ''the COG'']
   \<and> fst (get_filtered_container_logs ddc_service bot_lines_env 1 bot_patterns ''No bot logs found'')
       = Inr (LogResult_ok ''the COG'')"
proof -
  let ?s = "''run Bot.PY'' @ [newline] @ ''x'' @ [newline] @ ''the COG''"
  have h1: "combined_log_text ddc_service bot_lines_env 1 ?s" by code_simp
  have h2: "(0::int) < 1" by simp
  have m: "matching_lines bot_patterns (split_nl ?s) = [''run Bot.PY'', ''the COG'']"
    by code_simp
  have l: "last_matching bot_patterns (nat 1) (split_nl ?s) = [''the COG'']"
    by code_simp
  show ?thesis
    using C4_filtered_tail [OF h1 h2, of bot_patterns "''No bot logs found''"] h1 m l
    by simp
qed

text \<open>
  Claim C4 as first stated promises the last \<open>min K n\<close> matching lines for every \<open>K\<close>.
  For a log without any keyword these are no lines at all, an empty text, whereas
  the fallback returns the placeholder.
\<close>

theorem C4_counterexample:
  "combined_log_text ddc_service hello_env 500 ''hello''
   \<and> length (matching_lines bot_patterns (split_nl ''hello'')) = 0
   \<and> join_nl (last_matching bot_patterns 500 (split_nl ''hello'')) = []
   \<and> fst (get_filtered_container_logs ddc_service hello_env 500 bot_patterns ''No bot logs found'')
       = Inr (LogResult_ok ''No bot logs found'')"
  by code_simp

section \<open>Container logs: the status of a failure\<close>

lemma try_all_log_files_None:
  "fst (try_all_log_files env n kps) = None \<Longrightarrow> (k, ps) \<in> set kps
     \<Longrightarrow> fst (try_log_files env n ps) = None"
proof (induction kps)
  case Nil
  then show ?case by simp
next
  case (Cons kp kps)
  obtain kind paths where kp: "kp = (kind, paths)" by (cases kp)
  show ?case
    using Cons
    by (auto simp: kp split: prod.splits option.splits)
qed

lemma container_paths_listed: "(''container'', paths_of ''container'') \<in> set log_paths"
  by (simp add: log_paths_def paths_of_def)

lemma own_files_None:
  assumes "fst (try_all_log_files env n log_paths) = None"
  shows "fst (try_log_files env n (paths_of ''container'')) = None"
  using try_all_log_files_None [OF assms container_paths_listed] .

lemma sync_cases:
  "get_container_logs_sync env name n =
     (if \<not> docker_sdk env then (Inl NameError, [])
      else (case docker_sync env name n of
              Inr logs \<Rightarrow> (Inr (Some logs), [EngineSync name n])
            | Inl e \<Rightarrow> (Inr None, [EngineSync name n])))"
  by (simp add: get_container_logs_sync_def split: sum.splits exn.splits)

lemma async_retry_raises:
  "fst (async_retry env name n) = Inl e \<Longrightarrow>
     running_loop env \<and> e \<notin> {AttributeError, TypeError, RuntimeError}"
  by (auto simp: async_retry_def get_container_logs_service_first_def
        get_docker_client_async_def fetch_container_logs_async_def service_first_handler_def
      split: if_splits sum.splits exn.splits prod.splits option.splits bool.splits)


lemma get_container_logs_try_no_files:
  assumes "validate_container_name env (container_name request)"
    and "fst (try_all_log_files env (max_lines request) log_paths) = None"
  shows "fst (get_container_logs_try svc env request) =
     (case fst (get_container_logs_sync env (container_name request) (max_lines request)) of
        Inl e \<Rightarrow> Inl e
      | Inr (Some logs) \<Rightarrow> Inr (LogResult_ok logs)
      | Inr None \<Rightarrow>
          (case fst (async_retry env (container_name request) (max_lines request)) of
             Inl e \<Rightarrow> Inl e
           | Inr (Some logs) \<Rightarrow> Inr (LogResult_ok logs)
           | Inr None \<Rightarrow> Inr (LogResult_fail (not_found_message (container_name request)) 404)))"
proof -
  let ?name = "container_name request" and ?n = "max_lines request"
  let ?own = "if ?name = default_container svc
       then try_log_files env ?n (paths_of ''container'') else (None, [])"
  have "fst ?own = None"
    using own_files_None [OF assms(2)] by simp
  then obtain t1 where own: "?own = (None, t1)"
    by (cases ?own) simp
  obtain o4 t4 where all: "try_all_log_files env ?n log_paths = (o4, t4)"
    by (cases "try_all_log_files env ?n log_paths")
  have o4: "o4 = None"
    using assms(2) all by simp
  obtain s t2 where sy: "get_container_logs_sync env ?name ?n = (s, t2)"
    by (cases "get_container_logs_sync env ?name ?n")
  obtain a t3 where ar: "async_retry env ?name ?n = (a, t3)"
    by (cases "async_retry env ?name ?n")
  show ?thesis
    unfolding get_container_logs_try_def Let_def
    using assms(1)
    by (simp add: own all o4 sy ar split: sum.split option.split)
qed

lemma get_container_logs_fst:
  "fst (get_container_logs svc env request) =
     (case fst (get_container_logs_try svc env request) of
        Inr result \<Rightarrow> Inr result
      | Inl e \<Rightarrow>
          if e \<in> {ImportError, AttributeError, TypeError, ValueError, RuntimeError} then
            (case fst (try_all_log_files env (max_lines request) log_paths) of
               Some (kind, file_content) \<Rightarrow>
                 Inr (LogResult_ok (reading_from_unavailable kind file_content))
             | None \<Rightarrow> Inr (LogResult_fail ''An unexpected error occurred'' 500))
          else Inl e)"
  by (simp add: get_container_logs_def split: prod.split sum.split option.split)

lemma sync_fst:
  "fst (get_container_logs_sync env name n) =
     (if \<not> docker_sdk env then Inl NameError
      else (case docker_sync env name n of Inr logs \<Rightarrow> Inr (Some logs) | Inl e \<Rightarrow> Inr None))"
  by (simp add: sync_cases split: sum.split)

text \<open>
  Claim C5, as the code has it. Take a valid request and a state in which no log file
  has text. When the synchronous query fails, for whatever reason (missing
  container, API error, any other exception), and the asynchronous retry ends without
  a text, the answer is the failure with status 404. And every failure answered is
  either that 404, the retry having ended without a text, or the failure with status
  500, which is answered only when an event loop runs and the retry raises
  \<^verbatim>\<open>ImportError\<close> or \<^verbatim>\<open>ValueError\<close>.
\<close>

theorem C5_failure_status:
  assumes "validate_container_name env (container_name request)"
    and "fst (try_all_log_files env (max_lines request) log_paths) = None"
  shows "(docker_sdk env \<longrightarrow> (\<exists>e. docker_sync env (container_name request) (max_lines request) = Inl e)
            \<longrightarrow> fst (async_retry env (container_name request) (max_lines request)) = Inr None
            \<longrightarrow> fst (get_container_logs svc env request)
                  = Inr (LogResult_fail (not_found_message (container_name request)) 404))
       \<and> (\<forall>r. fst (get_container_logs svc env request) = Inr r \<longrightarrow> \<not> success r \<longrightarrow>
             (r = LogResult_fail (not_found_message (container_name request)) 404
                \<and> fst (async_retry env (container_name request) (max_lines request)) = Inr None)
           \<or> (r = LogResult_fail ''An unexpected error occurred'' 500
                \<and> running_loop env
                \<and> fst (async_retry env (container_name request) (max_lines request))
                    \<in> {Inl ImportError, Inl ValueError}))"
proof -
  let ?name = "container_name request" and ?n = "max_lines request"
  let ?a = "fst (async_retry env ?name ?n)"
  note try_eq = get_container_logs_try_no_files [OF assms, of svc]
  have esc: "running_loop env \<and> e \<notin> {AttributeError, TypeError, RuntimeError}" if "?a = Inl e" for e
    using async_retry_raises [OF that] .
  have part1: "fst (get_container_logs svc env request)
                  = Inr (LogResult_fail (not_found_message ?name) 404)"
    if "docker_sdk env" "docker_sync env ?name ?n = Inl e" "?a = Inr None" for e
    using that by (simp add: get_container_logs_fst try_eq sync_fst)
  have part2: "(r = LogResult_fail (not_found_message ?name) 404 \<and> ?a = Inr None)
           \<or> (r = LogResult_fail ''An unexpected error occurred'' 500
                \<and> running_loop env \<and> ?a \<in> {Inl ImportError, Inl ValueError})"
    if r: "fst (get_container_logs svc env request) = Inr r" and ns: "\<not> success r" for r
  proof (cases "fst (get_container_logs_try svc env request)")
    case (Inr r0)
    then have r0: "r0 = r" using r by (simp add: get_container_logs_fst)
    show ?thesis
    proof (cases "fst (get_container_logs_sync env ?name ?n)")
      case (Inl e)
      then show ?thesis using Inr try_eq by simp
    next
      case s: (Inr so)
      show ?thesis
      proof (cases so)
        case (Some logs)
        then have "r = LogResult_ok logs" using Inr s try_eq r0 by simp
        then show ?thesis using ns by (simp add: LogResult_ok_def)
      next
        case None
        show ?thesis
        proof (cases ?a)
          case (Inl e)
          then show ?thesis using Inr s None try_eq by simp
        next
          case a: (Inr ao)
          show ?thesis
          proof (cases ao)
            case None2: None
            then show ?thesis using Inr s None a try_eq r0 by simp
          next
            case (Some logs)
            then have "r = LogResult_ok logs" using Inr s None a try_eq r0 by simp
            then show ?thesis using ns by (simp add: LogResult_ok_def)
          qed
        qed
      qed
    qed
  next
    case (Inl e)
    have handled: "e \<in> {ImportError, AttributeError, TypeError, ValueError, RuntimeError}"
      and r500: "r = LogResult_fail ''An unexpected error occurred'' 500"
      using r Inl assms(2) by (auto simp: get_container_logs_fst split: if_splits)
    have "fst (get_container_logs_sync env ?name ?n) \<noteq> Inl e"
      using handled by (auto simp: sync_fst split: if_splits sum.splits)
    then have "?a = Inl e"
      using Inl try_eq
      by (auto split: sum.splits option.splits)
    then show ?thesis
      using esc [of e] handled r500 by auto
  qed
  show ?thesis
    using part1 part2 by blast
qed


theorem C5_failure_status_witness:
  "validate_container_name api_error_env (container_name web500)
   \<and> fst (try_all_log_files api_error_env (max_lines web500) log_paths) = None
   \<and> docker_sdk api_error_env
   \<and> docker_sync api_error_env (container_name web500) (max_lines web500) = Inl APIError
   \<and> fst (async_retry api_error_env (container_name web500) (max_lines web500)) = Inr None
   \<and> fst (get_container_logs ddc_service api_error_env web500)
       = Inr (LogResult_fail (not_found_message (container_name web500)) 404)
   \<and> validate_container_name loop_value_error_env (container_name web500)
   \<and> fst (try_all_log_files loop_value_error_env (max_lines web500) log_paths) = None
   \<and> fst (get_container_logs ddc_service loop_value_error_env web500)
       = Inr (LogResult_fail ''An unexpected error occurred'' 500)
   \<and> \<not> success (LogResult_fail ''An unexpected error occurred'' 500)
   \<and> running_loop loop_value_error_env
   \<and> fst (async_retry loop_value_error_env (container_name web500) (max_lines web500))
       = Inl ValueError"
proof -
  let ?name = "container_name web500" and ?n = "max_lines web500"
  have a1: "validate_container_name api_error_env ?name" by code_simp
  have a2: "fst (try_all_log_files api_error_env ?n log_paths) = None"
    by code_simp
  have a3: "docker_sdk api_error_env" by code_simp
  have a4: "docker_sync api_error_env ?name ?n = Inl APIError"
    by code_simp
  have a5: "fst (async_retry api_error_env ?name ?n) = Inr None"
    by code_simp
  have a6: "fst (get_container_logs ddc_service api_error_env web500)
       = Inr (LogResult_fail (not_found_message ?name) 404)"
    using C5_failure_status [OF a1 a2, of ddc_service] a3 a4 a5 by blast
  have b1: "validate_container_name loop_value_error_env ?name" by code_simp
  have b2: "fst (try_all_log_files loop_value_error_env ?n log_paths) = None"
    by code_simp
  have b3: "fst (get_container_logs ddc_service loop_value_error_env web500)
       = Inr (LogResult_fail ''An unexpected error occurred'' 500)" by code_simp
  have b4: "\<not> success (LogResult_fail ''An unexpected error occurred'' 500)"
    by (simp add: LogResult_fail_def)
  have b5: "LogResult_fail ''An unexpected error occurred'' 500
      \<noteq> LogResult_fail (not_found_message ?name) 404"
    by (simp add: LogResult_fail_def)
  have b6: "fst (async_retry loop_value_error_env ?name ?n) \<noteq> Inl ImportError"
    by code_simp
  have b7: "running_loop loop_value_error_env
      \<and> fst (async_retry loop_value_error_env ?name ?n) \<in> {Inl ImportError, Inl ValueError}"
    using C5_failure_status [OF b1 b2, of ddc_service] b3 b4 b5 by blast
  then have b8: "fst (async_retry loop_value_error_env ?name ?n) = Inl ValueError"
    using b6 by blast
  show ?thesis
    using a1 a2 a3 a4 a5 a6 b1 b2 b3 b4 b7 b8 by blast
qed

text \<open>
  Claim C5 as first stated gives status 500 to an engine API error. With the engine
  failing on an API error and no log file at hand, the answer is 404.
\<close>

theorem C5_counterexample:
  "validate_container_name api_error_env ''web''
   \<and> docker_sync api_error_env ''web'' 500 = Inl APIError
   \<and> fst (get_container_logs ddc_service api_error_env \<lparr>container_name = ''web'', max_lines = 500\<rparr>)
       = Inr (LogResult_fail (not_found_message ''web'') 404)
   \<and> status_code (LogResult_fail (not_found_message ''web'') 404) \<noteq> 500"
  by code_simp

section \<open>Filtered logs: the answer depends on the backing state only\<close>

lemma read_log_file_cong:
  "files env1 p = files env2 p \<Longrightarrow> read_log_file env1 p n = read_log_file env2 p n"
  by (simp add: read_log_file_def)

lemma try_log_files_cong:
  "list_all (\<lambda>p. files env1 p = files env2 p) ps
     \<Longrightarrow> try_log_files env1 n ps = try_log_files env2 n ps"
proof (induction ps)
  case Nil
  then show ?case by simp
next
  case (Cons p ps)
  then have p: "files env1 p = files env2 p"
    and rest: "try_log_files env1 n ps = try_log_files env2 n ps"
    by simp_all
  show ?case
    unfolding try_log_files.simps os_path_exists_def read_log_file_cong [OF p] rest p
    by (rule refl)
qed

lemma sync_cong:
  "docker_sdk env1 = docker_sdk env2 \<Longrightarrow> docker_sync env1 name = docker_sync env2 name
     \<Longrightarrow> get_container_logs_sync env1 name n = get_container_logs_sync env2 name n"
  by (simp add: get_container_logs_sync_def)

lemma service_first_cong:
  assumes "docker_sdk env1 = docker_sdk env2" and "client_pool env1 = client_pool env2"
    and "client_enter env1 = client_enter env2" and "docker_async env1 name = docker_async env2 name"
  shows "get_container_logs_service_first env1 name n = get_container_logs_service_first env2 name n"
  unfolding get_container_logs_service_first_def get_docker_client_async_def
    fetch_container_logs_async_def assms
  by (rule refl)

lemma get_filtered_container_logs_cong:
  assumes "docker_sdk env1 = docker_sdk env2"
    and "docker_sync env1 (default_container svc) = docker_sync env2 (default_container svc)"
    and "running_loop env1 = running_loop env2"
    and "client_pool env1 = client_pool env2"
    and "client_enter env1 = client_enter env2"
    and "docker_async env1 (default_container svc) = docker_async env2 (default_container svc)"
  shows "get_filtered_container_logs svc env1 n pats msg
           = get_filtered_container_logs svc env2 n pats msg"
  unfolding get_filtered_container_logs_def filtered_async_retry_def assms(3)
    sync_cong [OF assms(1,2)] service_first_cong [OF assms(1,4,5,6)]
  by (rule refl)

lemma file_then_filtered_cong:
  assumes "list_all (\<lambda>p. files env1 p = files env2 p) (paths_of key)"
    and "docker_sdk env1 = docker_sdk env2"
    and "docker_sync env1 (default_container svc) = docker_sync env2 (default_container svc)"
    and "running_loop env1 = running_loop env2"
    and "client_pool env1 = client_pool env2"
    and "client_enter env1 = client_enter env2"
    and "docker_async env1 (default_container svc) = docker_async env2 (default_container svc)"
  shows "file_then_filtered svc env1 n key pats msg = file_then_filtered svc env2 n key pats msg"
  unfolding file_then_filtered_def try_log_files_cong [OF assms(1)]
    get_filtered_container_logs_cong [OF assms(2-7)]
  by (rule refl)

text \<open>
  Claim C9. The answer of \<^verbatim>\<open>get_filtered_logs\<close> is determined by the request and by
  the backing state: two calls with the same request, made in states that agree on the
  files of the requested log type and on the engine's answers for the service's own
  container, return the same result, content included. In particular a call repeated
  in an unchanged state returns what the first call returned.
\<close>

theorem C9_filtered_logs_deterministic:
  assumes "same_backing_state svc (log_type request) env1 env2"
  shows "get_filtered_logs svc env1 request = get_filtered_logs svc env2 request"
proof -
  have ftf: "file_then_filtered svc env1 n (value_LogType (log_type request)) pats msg
           = file_then_filtered svc env2 n (value_LogType (log_type request)) pats msg"
    for n pats msg
    using assms
    by (intro file_then_filtered_cong) (simp_all add: same_backing_state_def)
  show ?thesis
  proof (cases "log_type request")
    case BOT
    then show ?thesis using ftf by (simp add: get_filtered_logs_def get_bot_logs_def)
  next
    case DISCORD
    then show ?thesis using ftf by (simp add: get_filtered_logs_def get_discord_logs_def)
  next
    case WEBUI
    then show ?thesis using ftf by (simp add: get_filtered_logs_def get_webui_logs_def)
  next
    case APPLICATION
    then show ?thesis using ftf by (simp add: get_filtered_logs_def get_application_logs_def)
  next
    case CONTAINER
    then show ?thesis by (simp add: get_filtered_logs_def)
  next
    case ACTION
    then show ?thesis by (simp add: get_filtered_logs_def)
  qed
qed

theorem C9_filtered_logs_deterministic_witness:
  "same_backing_state ddc_service (log_type \<lparr>log_type = BOT, filtered_max_lines = 500\<rparr>)
      bot_log_env bot_and_discord_log_env
   \<and> get_filtered_logs ddc_service bot_log_env \<lparr>log_type = BOT, filtered_max_lines = 500\<rparr>
       = get_filtered_logs ddc_service bot_and_discord_log_env
           \<lparr>log_type = BOT, filtered_max_lines = 500\<rparr>
   \<and> fst (get_filtered_logs ddc_service bot_and_discord_log_env
           \<lparr>log_type = BOT, filtered_max_lines = 500\<rparr>) = Inr (LogResult_ok ''bot started'')"
proof -
  let ?req = "\<lparr>log_type = BOT, filtered_max_lines = 500\<rparr>"
  have h: "same_backing_state ddc_service (log_type ?req) bot_log_env bot_and_discord_log_env"
    by (simp add: same_backing_state_def bot_log_env_def bot_and_discord_log_env_def
        base_env_def paths_of_def log_paths_def)
  have v: "fst (get_filtered_logs ddc_service bot_and_discord_log_env ?req)
      = Inr (LogResult_ok ''bot started'')" by code_simp
  show ?thesis
    using C9_filtered_logs_deterministic [OF h] h v by simp
qed

section \<open>How far the validation and the handlers reach\<close>

text \<open>
  The fallback validation accepts exactly the non-empty names made of name characters,
  and those names followed by one newline. Every other name is refused before any
  access is made.
\<close>

lemma re_match_name_iff:
  "re_match_name s \<longleftrightarrow>
     (s \<noteq> [] \<and> list_all name_char s)
     \<or> (\<exists>body. s = body @ [newline] \<and> body \<noteq> [] \<and> list_all name_char body)"
proof -
  have nl: "\<not> name_char newline"
    by (simp add: name_char_def newline_def Let_def)
  show ?thesis
  proof (cases "s \<noteq> [] \<and> last s = newline")
    case True
    then have s: "s = butlast s @ [newline]"
      by (metis append_butlast_last_id)
    have "\<not> list_all name_char s"
    proof
      assume "list_all name_char s"
      then have "list_all name_char (butlast s @ [newline])" using s by simp
      then show False using nl by simp
    qed
    then show ?thesis
      using True s by (auto simp: re_match_name_def Let_def)
  next
    case False
    then show ?thesis
      by (auto simp: re_match_name_def Let_def)
  qed
qed

lemma invalid_name_refused:
  assumes "common_helpers env = None" and "\<not> re_match_name (container_name request)"
  shows "get_container_logs svc env request
           = (Inr (LogResult_fail ''Invalid container name'' 400), [])"
  using assms
  by (simp add: get_container_logs_def get_container_logs_try_def validate_container_name_def
      Let_def)

text \<open>
  With the Docker SDK installed and no event loop running, \<^verbatim>\<open>get_container_logs\<close>
  always returns a result; with the SDK installed, the filtered fallback always returns
  a success. With a running loop, an exception that no handler names leaves
  \<^verbatim>\<open>get_container_logs\<close> as well.
\<close>

lemma async_retry_no_loop:
  "\<not> running_loop env \<Longrightarrow> \<exists>logs. fst (async_retry env name n) = Inr logs"
  by (cases "get_container_logs_service_first env name n")
     (auto simp: async_retry_def split: sum.splits)

lemma get_container_logs_fst_try:
  "fst (get_container_logs_try svc env request) = Inr r
     \<Longrightarrow> fst (get_container_logs svc env request) = Inr r"
  by (simp add: get_container_logs_fst)

lemma get_container_logs_returns:
  assumes "docker_sdk env" and "\<not> running_loop env"
  shows "\<exists>r. fst (get_container_logs svc env request) = Inr r"
proof -
  let ?name = "container_name request" and ?n = "max_lines request"
  have "\<exists>so. fst (get_container_logs_sync env ?name ?n) = Inr so"
    using assms(1) by (cases "docker_sync env ?name ?n") (simp_all add: sync_fst)
  then obtain so where so: "fst (get_container_logs_sync env ?name ?n) = Inr so" ..
  obtain ao where ao: "fst (async_retry env ?name ?n) = Inr ao"
    using async_retry_no_loop [OF assms(2)] by blast
  have "\<exists>r. fst (get_container_logs_try svc env request) = Inr r"
    using so ao
    by (cases "get_container_logs_sync env ?name ?n"; cases "async_retry env ?name ?n")
       (auto simp: get_container_logs_try_def Let_def split: prod.splits option.splits)
  then show ?thesis
    using get_container_logs_fst_try by blast
qed

lemma filtered_fallback_returns:
  assumes "docker_sdk env"
  shows "\<exists>r. fst (get_filtered_container_logs svc env n pats msg) = Inr r \<and> success r"
proof -
  let ?d = "default_container svc"
  have "\<exists>so t. get_container_logs_sync env ?d (n * 2) = (Inr so, t)"
    using assms by (cases "docker_sync env ?d (n * 2)") (simp_all add: sync_cases)
  then obtain so t where so: "get_container_logs_sync env ?d (n * 2) = (Inr so, t)"
    by blast
  show ?thesis
    by (cases "get_container_logs_service_first env ?d (n * 2)")
       (auto simp: get_filtered_container_logs_def so filtered_async_retry_def
          filtered_handler_def LogResult_ok_def Let_def
        split: sum.splits option.splits)
qed

lemma running_loop_exception_raises:
  "fst (get_container_logs ddc_service loop_pool_error_env web500) = Inl OtherException"
  by code_simp

section \<open>What a success carries, and the order of the sources\<close>












end
